theory Spec2Isabelle
  imports Complex_Main
begin

section \<open>The model-selection notebook\<close>

text \<open>
  The repository is one notebook. Its model-selection cells hold three pieces of code of
  their own: the scoring callable \<open>gmm_bic_score\<close>, the parameter grid \<open>param_grid\<close>, and
  the reporting step that builds the dataframe \<open>df\<close> from the search's \<open>cv_results_\<close>.
  The search itself is scikit-learn's \<open>GridSearchCV\<close>, whose call the notebook leaves
  open; nothing of it is defined here, and what the theorems need of it is a hypothesis.

  Scores are Python floats. They are modelled as reals: unary minus on a float is exact
  and reverses the order of any two floats that are not NaN, which is all the code below
  does with them.
\<close>

subsection \<open>Estimators and the scoring callable\<close>

text \<open>The four strings of \<open>param_grid["covariance_type"]\<close>.\<close>

datatype covariance = Spherical | Tied | Diag | Full

text \<open>
  An estimator is an object with the constructor parameters the grid sets and a method
  \<open>bic\<close> that maps data to a score; \<open>estimator.bic(X)\<close> is \<open>bic estimator X\<close>. The
  notebook calls the method and never looks inside it.
\<close>

record 'x estimator =
  n_components :: int
  covariance_type :: covariance
  bic :: "'x \<Rightarrow> real"

text \<open>
  \<^verbatim>\<open>
  def gmm_bic_score(estimator, X):
      """Callable to pass to GridSearchCV that will use the BIC score."""
      # Make it negative since GridSearchCV expects a score to maximize
      return -estimator.bic(X)
  \<close>
\<close>

definition gmm_bic_score :: "'x estimator \<Rightarrow> 'x \<Rightarrow> real" where
  "gmm_bic_score estimator X = - bic estimator X"

subsection \<open>The parameter grid\<close>

text \<open>
  \<^verbatim>\<open>
  param_grid = {
      "n_components": range(1, 7),
      "covariance_type": ["spherical", "tied", "diag", "full"],
  }
  \<close>
\<close>

record param_grid_dict =
  grid_n_components :: "int list"
  grid_covariance_type :: "covariance list"

definition param_grid :: param_grid_dict where
  "param_grid =
     \<lparr>grid_n_components = [1, 2, 3, 4, 5, 6],
      grid_covariance_type = [Spherical, Tied, Diag, Full]\<rparr>"

subsection \<open>The reporting step\<close>

text \<open>
  \<^verbatim>\<open>
  df = pd.DataFrame(grid_search.cv_results_)[
      ["param_n_components", "param_covariance_type", "mean_test_score"]
  ]
  df["mean_test_score"] = -df["mean_test_score"]
  df = df.rename(
      columns={
          "param_n_components": "Number of components",
          "param_covariance_type": "Type of covariance",
          "mean_test_score": "BIC score",
      }
  )
  \<close>
  A row of \<open>cv_results_\<close> is modelled with the three columns the selection keeps; a row
  of \<open>df\<close> has them under their new names.
\<close>

record cv_result =
  param_n_components :: int
  param_covariance_type :: covariance
  mean_test_score :: real

record df_row =
  Number_of_components :: int
  Type_of_covariance :: covariance
  BIC_score :: real

definition df_row_of :: "cv_result \<Rightarrow> df_row" where
  "df_row_of r =
     \<lparr>Number_of_components = param_n_components r,
      Type_of_covariance = param_covariance_type r,
      BIC_score = - mean_test_score r\<rparr>"

definition df :: "cv_result list \<Rightarrow> df_row list" where
  "df cv_results = map df_row_of cv_results"

subsection \<open>What the notebook relies on the search for\<close>

text \<open>
  The notebook states that \<open>GridSearchCV\<close> is designed to maximize a score: the
  candidate it keeps has a score no other candidate of the grid exceeds.
\<close>

definition maximizes_score :: "('c \<Rightarrow> real) \<Rightarrow> 'c list \<Rightarrow> 'c \<Rightarrow> bool" where
  "maximizes_score score grid c \<longleftrightarrow> c \<in> set grid \<and> (\<forall>c' \<in> set grid. score c' \<le> score c)"

text \<open>
  The specification's contract for the same step, in its own words: select the
  configuration with the globally minimum score.
\<close>

definition spec_minimizes_score :: "('c \<Rightarrow> real) \<Rightarrow> 'c list \<Rightarrow> 'c \<Rightarrow> bool" where
  "spec_minimizes_score score grid c \<longleftrightarrow> c \<in> set grid \<and> (\<forall>c' \<in> set grid. score c \<le> score c')"

text \<open>
  \<open>mean_test_score\<close> is a mean over the evaluation splits of the search: the arithmetic
  mean of a non-empty list of floats.
\<close>

definition mean :: "real list \<Rightarrow> real" where
  "mean xs = sum_list xs / real (length xs)"

section \<open>Properties\<close>

lemma sum_list_uminus: "sum_list (map (\<lambda>x. - f x) xs) = - sum_list (map f xs)"
  for f :: "'a \<Rightarrow> real"
  by (induction xs) simp_all

lemma mean_uminus: "mean (map (\<lambda>x. - f x) xs) = - mean (map f xs)"
  for f :: "'a \<Rightarrow> real"
  by (simp add: mean_def sum_list_uminus)

lemma df_nth: "i < length cv_results \<Longrightarrow> df cv_results ! i = df_row_of (cv_results ! i)"
  by (simp add: df_def)

lemma BIC_score_df_row_of: "BIC_score (df_row_of r) = - mean_test_score r"
  by (simp add: df_row_of_def)

lemma mean_gmm_bic_score:
  "mean (map (\<lambda>(e, X'). gmm_bic_score e X') splits) = - mean (map (\<lambda>(e, X'). bic e X') splits)"
proof -
  have "(\<lambda>(e :: 'a estimator, X'). gmm_bic_score e X') = (\<lambda>p. - (case p of (e, X') \<Rightarrow> bic e X'))"
    by (simp add: fun_eq_iff gmm_bic_score_def)
  then show ?thesis
    by (simp only: mean_uminus)
qed

subsection \<open>Maximizing the negated score is minimizing the score\<close>

text \<open>
  Claim C9. \<open>gmm_bic_score\<close> returns exactly the negation of the estimator's BIC on
  \<open>X\<close>, so a candidate maximizes \<open>gmm_bic_score\<close> over the grid exactly when it
  minimizes BIC over the grid: what the search keeps by maximizing the negated score is
  what the specification's direct minimization asks for. Candidates with equal scores
  are maximizers and minimizers alike; which of them is kept is not decided here.
\<close>

theorem gmm_bic_score_maximizer_iff_bic_minimizer:
  "gmm_bic_score estimator X = - bic estimator X \<and>
   (maximizes_score (\<lambda>e. gmm_bic_score e X) grid estimator \<longleftrightarrow>
    spec_minimizes_score (\<lambda>e. bic e X) grid estimator)"
  by (simp add: gmm_bic_score_def maximizes_score_def spec_minimizes_score_def)

theorem gmm_bic_score_maximizer_iff_bic_minimizer_witness:
  "maximizes_score (\<lambda>e. gmm_bic_score e [[0, 0], [4, 1 :: real]])
     [\<lparr>n_components = 1, covariance_type = Full, bic = \<lambda>X. 30 * real (length X)\<rparr>,
      \<lparr>n_components = 2, covariance_type = Full, bic = \<lambda>X. 10 * real (length X)\<rparr>,
      \<lparr>n_components = 2, covariance_type = Spherical, bic = \<lambda>X. 20 * real (length X)\<rparr>]
     \<lparr>n_components = 2, covariance_type = Full, bic = \<lambda>X. 10 * real (length X)\<rparr> \<and>
   spec_minimizes_score (\<lambda>e. bic e [[0, 0], [4, 1 :: real]])
     [\<lparr>n_components = 1, covariance_type = Full, bic = \<lambda>X. 30 * real (length X)\<rparr>,
      \<lparr>n_components = 2, covariance_type = Full, bic = \<lambda>X. 10 * real (length X)\<rparr>,
      \<lparr>n_components = 2, covariance_type = Spherical, bic = \<lambda>X. 20 * real (length X)\<rparr>]
     \<lparr>n_components = 2, covariance_type = Full, bic = \<lambda>X. 10 * real (length X)\<rparr> \<and>
   gmm_bic_score \<lparr>n_components = 2, covariance_type = Full, bic = \<lambda>X. 10 * real (length X)\<rparr>
     [[0, 0], [4, 1 :: real]] = - 20"
proof -
  let ?X = "[[0, 0], [4, 1 :: real]]"
  let ?e1 = "\<lparr>n_components = 1, covariance_type = Full, bic = \<lambda>X :: real list list. 30 * real (length X)\<rparr>"
  let ?e2 = "\<lparr>n_components = 2, covariance_type = Full, bic = \<lambda>X :: real list list. 10 * real (length X)\<rparr>"
  let ?e3 = "\<lparr>n_components = 2, covariance_type = Spherical, bic = \<lambda>X :: real list list. 20 * real (length X)\<rparr>"
  have min: "spec_minimizes_score (\<lambda>e. bic e ?X) [?e1, ?e2, ?e3] ?e2"
    by (simp add: spec_minimizes_score_def)
  from gmm_bic_score_maximizer_iff_bic_minimizer [of ?e2 ?X "[?e1, ?e2, ?e3]"] min
  show ?thesis by simp
qed

subsection \<open>The sign flip of the report\<close>

text \<open>
  Claim C10. For every row of the grid, the "BIC score" column of \<open>df\<close> equals the
  estimator's BIC: the stored \<open>mean_test_score\<close> is the value of \<open>gmm_bic_score\<close>,
  the negated BIC, and the reporting step negates it again. The same holds when the
  stored score is the mean of \<open>gmm_bic_score\<close> over several evaluation splits: the
  column is then the mean of the BIC values of those splits. The other two columns are
  copied unchanged under their new names.
\<close>

theorem BIC_score_column_restores_bic:
  assumes "i < length cv_results"
  shows "(mean_test_score (cv_results ! i) = gmm_bic_score estimator X \<longrightarrow>
            BIC_score (df cv_results ! i) = bic estimator X) \<and>
         (splits \<noteq> [] \<and>
          mean_test_score (cv_results ! i) = mean (map (\<lambda>(e, X'). gmm_bic_score e X') splits) \<longrightarrow>
            BIC_score (df cv_results ! i) = mean (map (\<lambda>(e, X'). bic e X') splits)) \<and>
         Number_of_components (df cv_results ! i) = param_n_components (cv_results ! i) \<and>
         Type_of_covariance (df cv_results ! i) = param_covariance_type (cv_results ! i)"
proof -
  have row: "df cv_results ! i = df_row_of (cv_results ! i)"
    using assms by (rule df_nth)
  have single: "mean_test_score (cv_results ! i) = gmm_bic_score estimator X \<longrightarrow>
      BIC_score (df cv_results ! i) = bic estimator X"
    by (simp add: row BIC_score_df_row_of gmm_bic_score_def)
  have averaged: "splits \<noteq> [] \<and>
      mean_test_score (cv_results ! i) = mean (map (\<lambda>(e, X'). gmm_bic_score e X') splits) \<longrightarrow>
      BIC_score (df cv_results ! i) = mean (map (\<lambda>(e, X'). bic e X') splits)"
    by (simp add: row BIC_score_df_row_of mean_gmm_bic_score)
  have columns: "Number_of_components (df cv_results ! i) = param_n_components (cv_results ! i) \<and>
      Type_of_covariance (df cv_results ! i) = param_covariance_type (cv_results ! i)"
    by (simp add: row df_row_of_def)
  from single averaged columns show ?thesis by blast
qed

theorem BIC_score_column_restores_bic_witness:
  "BIC_score
     (df [\<lparr>param_n_components = 1, param_covariance_type = Full, mean_test_score = - 15\<rparr>,
          \<lparr>param_n_components = 2, param_covariance_type = Full, mean_test_score = - 20\<rparr>] ! 1)
     = bic \<lparr>n_components = 2, covariance_type = Full, bic = \<lambda>X. 10 * real (length X)\<rparr>
         [[0, 0], [4, 1 :: real]] \<and>
   BIC_score
     (df [\<lparr>param_n_components = 1, param_covariance_type = Full, mean_test_score = - 15\<rparr>,
          \<lparr>param_n_components = 2, param_covariance_type = Full, mean_test_score = - 20\<rparr>] ! 0)
     = mean (map (\<lambda>(e, X'). bic e X')
         [(\<lparr>n_components = 1, covariance_type = Full, bic = \<lambda>X. 10 * real (length X)\<rparr>, [[0 :: real, 0]]),
          (\<lparr>n_components = 1, covariance_type = Full, bic = \<lambda>X. 20 * real (length X)\<rparr>, [[4, 1]])]) \<and>
   Number_of_components
     (df [\<lparr>param_n_components = 1, param_covariance_type = Full, mean_test_score = - 15\<rparr>,
          \<lparr>param_n_components = 2, param_covariance_type = Full, mean_test_score = - 20\<rparr>] ! 1) = 2"
proof -
  let ?cv = "[\<lparr>param_n_components = 1, param_covariance_type = Full, mean_test_score = - 15\<rparr>,
              \<lparr>param_n_components = 2, param_covariance_type = Full, mean_test_score = - 20\<rparr>]"
  let ?e = "\<lparr>n_components = 2, covariance_type = Full, bic = \<lambda>X :: real list list. 10 * real (length X)\<rparr>"
  let ?X = "[[0, 0], [4, 1 :: real]]"
  let ?splits = "[(\<lparr>n_components = 1, covariance_type = Full, bic = \<lambda>X :: real list list. 10 * real (length X)\<rparr>, [[0 :: real, 0]]),
                  (\<lparr>n_components = 1, covariance_type = Full, bic = \<lambda>X. 20 * real (length X)\<rparr>, [[4, 1]])]"
  have one: "(1 :: nat) < length ?cv" and zero: "(0 :: nat) < length ?cv"
    by simp_all
  have stored1: "mean_test_score (?cv ! 1) = gmm_bic_score ?e ?X"
    by (simp add: gmm_bic_score_def)
  have stored0: "?splits \<noteq> [] \<and>
      mean_test_score (?cv ! 0) = mean (map (\<lambda>(e, X'). gmm_bic_score e X') ?splits)"
    by (simp add: gmm_bic_score_def mean_def)
  from BIC_score_column_restores_bic [OF one, of ?e ?X ?splits] stored1
  have a: "BIC_score (df ?cv ! 1) = bic ?e ?X" and c: "Number_of_components (df ?cv ! 1) = 2"
    by simp_all
  from BIC_score_column_restores_bic [OF zero, of ?e ?X ?splits] stored0
  have b: "BIC_score (df ?cv ! 0) = mean (map (\<lambda>(e, X'). bic e X') ?splits)"
    by blast
  from a b c show ?thesis by blast
qed

end
